theory Spec2Isabelle
  imports Main
begin

section \<open>The outside world: clock, timers, network, thrown values\<close>

text \<open>
  The token manager (the \<open>TokenManager\<close> class) and the two device-flow classes
  (\<open>github-device-flow.ts\<close> and \<open>device-flow.ts\<close>, both called \<open>GitHubDeviceFlow\<close>) are
  asynchronous TypeScript. Each \<open>async\<close> method is embedded as a function from the state
  before the call to the result and the state after it; a rejected promise is the
  \<open>Inl\<close> of a sum, a resolved one the \<open>Inr\<close>.

  Times are integers (milliseconds since the epoch, as \<open>Date.now()\<close> gives them).
  A timer \<open>await new Promise(resolve => setTimeout(resolve, ms))\<close> advances the clock by
  \<open>ms\<close> (by nothing when \<open>ms\<close> is negative); nothing else advances it, so a network
  round trip takes no time in the model. The fields \<open>sleeps\<close> and \<open>fetched\<close> record the
  timers awaited and the requests issued, oldest first.
\<close>

text \<open>
  The requests the three classes send, each with the values it carries: the client id
  and the scopes joined by spaces; the client id and the device code; the refresh
  token; the bearer token of the rate-limit request and of the verification request;
  the client id and the token to revoke.
\<close>

datatype request =
    DeviceCodeRequest string string
  | TokenPollRequest string string
  | RefreshRequest string
  | RateLimitRequest string
  | VerifyRequest string
  | RevokeRequest string string

text \<open>
  What a \<open>fetch\<close> gives: \<open>Rejected m\<close> when the promise of \<open>fetch\<close>, or of the
  \<open>response.json()\<close> that follows it, rejects with an error of message \<open>m\<close> (the
  source handles both in the same \<open>catch\<close>); \<open>NotOk statusText body\<close> for a response
  with \<open>ok = false\<close>; \<open>Ok body\<close> for one with \<open>ok = true\<close>, its body typed by the
  interface the source casts it to. The fields of \<open>TokenResponse\<close> carry the prefix
  \<open>tr_\<close>, to keep them apart from those of the stored \<open>TokenInfo\<close>.
\<close>

record error_body =
  error :: "string option"
  error_description :: "string option"

datatype 'b reply = Rejected string | NotOk string error_body | Ok 'b

record DeviceCodeResponse =
  device_code :: string
  user_code :: string
  verification_uri :: string
  expires_in :: int
  interval :: int

record TokenResponse =
  tr_access_token :: string
  tr_token_type :: string
  tr_scope :: string
  tr_refresh_token :: "string option"
  tr_expires_in :: "int option"

record TokenInfo =
  access_token :: string
  expires_at :: "int option"
  refresh_token :: "string option"

record RateLimitInfo =
  limit :: int
  remaining :: int
  reset :: int

text \<open>
  The platform: \<open>JSON.parse\<close> (followed by the source's cast to \<open>TokenInfo\<close>; \<open>None\<close>
  when it throws, and also when it gives \<open>null\<close> or another falsy value, which every
  caller treats as it treats \<open>undefined\<close>), \<open>JSON.stringify\<close> at its two argument
  types, and the servers behind the endpoints. A server answers from the whole
  history of requests, the one being answered last, so any deterministic server (and
  any queue of mocked responses) is an instance.
\<close>

record platform =
  JSON_parse :: "string \<Rightarrow> TokenInfo option"
  JSON_stringify :: "TokenInfo \<Rightarrow> string"
  JSON_stringify_RateLimitInfo :: "RateLimitInfo \<Rightarrow> string"
  device_code_endpoint :: "request list \<Rightarrow> DeviceCodeResponse reply"
  access_token_endpoint :: "request list \<Rightarrow> TokenResponse reply"
  rate_limit_endpoint :: "request list \<Rightarrow> RateLimitInfo reply"
  verify_endpoint :: "request list \<Rightarrow> unit reply"
  revoke_endpoint :: "request list \<Rightarrow> unit reply"

record world =
  now :: int
  sleeps :: "int list"
  fetched :: "request list"

definition sleep :: "int \<Rightarrow> 'a world_scheme \<Rightarrow> 'a world_scheme" where
  "sleep ms w = w\<lparr>now := now w + max 0 ms, sleeps := sleeps w @ [ms]\<rparr>"

definition fetch ::
  "(request list \<Rightarrow> 'b) \<Rightarrow> request \<Rightarrow> 'a world_scheme \<Rightarrow> 'b \<times> 'a world_scheme" where
  "fetch server req w = (server (fetched w @ [req]), w\<lparr>fetched := fetched w @ [req]\<rparr>)"

text \<open>
  A thrown value: a \<open>PRAutomatorError\<close> with its message, its type and its cause, or any
  other value, of which the source reads \<open>error?.response?.status\<close> and
  \<open>error?.message\<close> only. \<open>new Error(m)\<close> is \<open>JsError None (Some m)\<close>.
\<close>

datatype thrown =
    PRAutomatorError string string "thrown option"
  | JsError "int option" "string option"

definition Error :: "string \<Rightarrow> thrown" where
  "Error m = JsError None (Some m)"

fun status_of :: "thrown \<Rightarrow> int option" where
  "status_of (PRAutomatorError m t c) = None"
| "status_of (JsError s m) = s"

fun message_of :: "thrown \<Rightarrow> string option" where
  "message_of (PRAutomatorError m t c) = Some m"
| "message_of (JsError s m) = m"

text \<open>\<open>s.includes(p)\<close>: \<open>p\<close> occurs in \<open>s\<close> as a contiguous run.\<close>

fun str_includes :: "string \<Rightarrow> string \<Rightarrow> bool" where
  "str_includes [] p = (p = [])"
| "str_includes (c # cs) p = (take (length p) (c # cs) = p \<or> str_includes cs p)"

section \<open>The token manager\<close>

text \<open>
  The state of a \<open>TokenManager\<close>: the vault's credentials (a map from keys to strings),
  the rate-limit snapshot, the time of the last request and the backoff delay. \<open>calls\<close>
  is not a field of the class: it records the tokens the caller's request function was
  invoked with, oldest first.
\<close>

record TokenManager = world +
  vault :: "string \<rightharpoonup> string"
  rateLimitInfo :: "RateLimitInfo option"
  lastRequest :: int
  backoffDelay :: int
  calls :: "string list"

definition TOKEN_INFO_KEY :: string where
  "TOKEN_INFO_KEY = ''github.token_info''"

definition RATE_LIMIT_KEY :: string where
  "RATE_LIMIT_KEY = ''github.rate_limit''"

definition MIN_TOKEN_LIFETIME :: int where
  "MIN_TOKEN_LIFETIME = 5 * 60 * 1000"

definition DEFAULT_BACKOFF :: int where
  "DEFAULT_BACKOFF = 1000"

definition new_TokenManager :: "int \<Rightarrow> (string \<rightharpoonup> string) \<Rightarrow> TokenManager" where
  "new_TokenManager t v =
     \<lparr>now = t, sleeps = [], fetched = [], vault = v, rateLimitInfo = None,
      lastRequest = 0, backoffDelay = DEFAULT_BACKOFF, calls = []\<rparr>"

definition NoTokenError :: thrown where
  "NoTokenError = PRAutomatorError ''No token available'' ''AUTH_ERROR'' None"

definition NoRefreshTokenError :: thrown where
  "NoRefreshTokenError = PRAutomatorError ''No refresh token available'' ''AUTH_ERROR'' None"

definition RefreshFailedError :: "thrown \<Rightarrow> thrown" where
  "RefreshFailedError cause = PRAutomatorError ''Failed to refresh token'' ''AUTH_ERROR'' (Some cause)"

definition RateLimitError :: "thrown \<Rightarrow> thrown" where
  "RateLimitError cause = PRAutomatorError ''Rate limit exceeded'' ''RATE_LIMIT'' (Some cause)"

text \<open>\<open>getStoredTokenInfo\<close>: an absent or empty value, and one that does not parse, give \<open>undefined\<close>.\<close>

definition getStoredTokenInfo :: "platform \<Rightarrow> 'a TokenManager_scheme \<Rightarrow> TokenInfo option" where
  "getStoredTokenInfo P w =
     (case vault w TOKEN_INFO_KEY of
        None \<Rightarrow> None
      | Some data \<Rightarrow> if data = [] then None else JSON_parse P data)"

text \<open>\<open>shouldRefreshToken\<close>: \<open>!tokenInfo.expires_at\<close> holds of a missing field and of \<open>0\<close>.\<close>

definition shouldRefreshToken :: "TokenInfo \<Rightarrow> 'a TokenManager_scheme \<Rightarrow> bool" where
  "shouldRefreshToken tokenInfo w =
     (case expires_at tokenInfo of
        None \<Rightarrow> False
      | Some e \<Rightarrow> if e = 0 then False else now w + MIN_TOKEN_LIFETIME > e)"

text \<open>
  \<open>storeToken\<close>: the spread \<open>...(expiresIn && {...})\<close> adds \<open>expires_at\<close> only for a
  truthy \<open>expiresIn\<close> (given and not \<open>0\<close>), and \<open>refresh_token\<close> only for a truthy
  \<open>refreshToken\<close> (given and not empty).
\<close>

definition storeToken ::
  "platform \<Rightarrow> string \<Rightarrow> int option \<Rightarrow> string option \<Rightarrow> 'a TokenManager_scheme \<Rightarrow> 'a TokenManager_scheme" where
  "storeToken P accessToken expiresIn refreshToken w =
     (let tokenInfo =
        \<lparr>access_token = accessToken,
         expires_at = (case expiresIn of
                         None \<Rightarrow> None
                       | Some n \<Rightarrow> if n = 0 then None else Some (now w + n * 1000)),
         refresh_token = (case refreshToken of
                            None \<Rightarrow> None
                          | Some r \<Rightarrow> if r = [] then None else Some r)\<rparr>
      in w\<lparr>vault := (vault w)(TOKEN_INFO_KEY \<mapsto> JSON_stringify P tokenInfo)\<rparr>)"

text \<open>
  \<open>refreshToken\<close>, in the two parts that the \<open>await fetch(...)\<close> separates. The first
  runs up to the request; \<open>Awaiting r\<close> is the call suspended on a request whose answer
  will be \<open>r\<close>. The second part runs when the answer arrives.
\<close>

datatype 'a suspended = Returned 'a | Awaiting "TokenResponse reply"

definition refreshToken_request ::
  "platform \<Rightarrow> TokenInfo option \<Rightarrow> 'a TokenManager_scheme
     \<Rightarrow> (thrown + string) suspended \<times> 'a TokenManager_scheme" where
  "refreshToken_request P given w =
     (let tokenInfo = (case given of None \<Rightarrow> getStoredTokenInfo P w | Some t \<Rightarrow> Some t) in
      case (case tokenInfo of None \<Rightarrow> None | Some t \<Rightarrow> refresh_token t) of
        None \<Rightarrow> (Returned (Inl NoRefreshTokenError), w)
      | Some rt \<Rightarrow>
          if rt = [] then (Returned (Inl NoRefreshTokenError), w)
          else (case fetch (access_token_endpoint P) (RefreshRequest rt) w of
                  (r, w') \<Rightarrow> (Awaiting r, w')))"

definition refreshToken_response ::
  "platform \<Rightarrow> TokenResponse reply \<Rightarrow> 'a TokenManager_scheme
     \<Rightarrow> (thrown + string) \<times> 'a TokenManager_scheme" where
  "refreshToken_response P r w =
     (case r of
        Rejected m \<Rightarrow> (Inl (RefreshFailedError (Error m)), w)
      | NotOk statusText b \<Rightarrow>
          (Inl (RefreshFailedError (Error (''Token refresh failed: '' @ statusText))), w)
      | Ok data \<Rightarrow>
          (Inr (tr_access_token data),
           storeToken P (tr_access_token data) (tr_expires_in data) (tr_refresh_token data) w))"

definition resume ::
  "platform \<Rightarrow> (thrown + string) suspended \<Rightarrow> 'a TokenManager_scheme
     \<Rightarrow> (thrown + string) \<times> 'a TokenManager_scheme" where
  "resume P s w = (case s of Returned x \<Rightarrow> (x, w) | Awaiting r \<Rightarrow> refreshToken_response P r w)"

definition refreshToken ::
  "platform \<Rightarrow> TokenInfo option \<Rightarrow> 'a TokenManager_scheme
     \<Rightarrow> (thrown + string) \<times> 'a TokenManager_scheme" where
  "refreshToken P given w =
     (case refreshToken_request P given w of (s, w') \<Rightarrow> resume P s w')"

text \<open>\<open>getToken\<close>, likewise in the part before the request and the part after the answer.\<close>

definition getToken_request ::
  "platform \<Rightarrow> 'a TokenManager_scheme \<Rightarrow> (thrown + string) suspended \<times> 'a TokenManager_scheme" where
  "getToken_request P w =
     (case getStoredTokenInfo P w of
        None \<Rightarrow> (Returned (Inl NoTokenError), w)
      | Some tokenInfo \<Rightarrow>
          if shouldRefreshToken tokenInfo w then refreshToken_request P (Some tokenInfo) w
          else (Returned (Inr (access_token tokenInfo)), w))"

definition getToken ::
  "platform \<Rightarrow> 'a TokenManager_scheme \<Rightarrow> (thrown + string) \<times> 'a TokenManager_scheme" where
  "getToken P w = (case getToken_request P w of (s, w') \<Rightarrow> resume P s w')"

text \<open>
  \<open>updateRateLimitInfo\<close>: everything happens inside a \<open>try\<close> whose \<open>catch\<close> ignores the
  error. The \<open>Authorization\<close> header is built first, so \<open>getToken\<close> runs (and may
  refresh) before the request goes out.
\<close>

definition updateRateLimitInfo ::
  "platform \<Rightarrow> 'a TokenManager_scheme \<Rightarrow> 'a TokenManager_scheme" where
  "updateRateLimitInfo P w =
     (case getToken P w of
        (Inl e, w1) \<Rightarrow> w1
      | (Inr token, w1) \<Rightarrow>
          (case fetch (rate_limit_endpoint P) (RateLimitRequest token) w1 of
             (Rejected m, w2) \<Rightarrow> w2
           | (NotOk statusText b, w2) \<Rightarrow> w2
           | (Ok data, w2) \<Rightarrow>
               w2\<lparr>rateLimitInfo := Some data,
                  vault := (vault w2)(RATE_LIMIT_KEY \<mapsto> JSON_stringify_RateLimitInfo P data)\<rparr>))"

text \<open>
  \<open>waitForRateLimit\<close>: the backoff wait comes first; the wait for the rate-limit reset
  is computed afterwards, from the clock as the first wait left it.
\<close>

definition waitForRateLimit :: "'a TokenManager_scheme \<Rightarrow> 'a TokenManager_scheme" where
  "waitForRateLimit w =
     (let timeSinceLastRequest = now w - lastRequest w;
          w1 = (if timeSinceLastRequest < backoffDelay w
                then sleep (backoffDelay w - timeSinceLastRequest) w else w);
          w2 = (case rateLimitInfo w1 of
                  None \<Rightarrow> w1
                | Some info \<Rightarrow>
                    if remaining info = 0
                    then (let waitTime = reset info * 1000 - now w1
                          in if waitTime > 0 then sleep waitTime w1 else w1)
                    else w1)
      in w2\<lparr>lastRequest := now w2\<rparr>)"

definition isRateLimitError :: "thrown \<Rightarrow> bool" where
  "isRateLimitError e =
     (status_of e = Some 429 \<or>
      (case message_of e of None \<Rightarrow> False | Some m \<Rightarrow> str_includes m ''rate limit''))"

definition isAuthError :: "thrown \<Rightarrow> bool" where
  "isAuthError e =
     (status_of e = Some 401 \<or>
      (case message_of e of None \<Rightarrow> False | Some m \<Rightarrow> str_includes m ''Unauthorized''))"

text \<open>
  The caller's request function is outside the manager: its outcome may depend on the
  token it is given and on how many times it was invoked before. \<open>invoke\<close> calls it and
  records the call.
\<close>

type_synonym 'r request_fn = "nat \<Rightarrow> string \<Rightarrow> thrown + 'r"

definition invoke ::
  "'r request_fn \<Rightarrow> string \<Rightarrow> 'a TokenManager_scheme \<Rightarrow> (thrown + 'r) \<times> 'a TokenManager_scheme" where
  "invoke request token w = (request (length (calls w)) token, w\<lparr>calls := calls w @ [token]\<rparr>)"

text \<open>
  \<open>executeRequest\<close>. \<open>attempt\<close> is the part of the \<open>try\<close> block that can throw (the
  token, then the request); \<open>handle_error\<close> is the \<open>catch\<close> block.
\<close>

definition attempt ::
  "platform \<Rightarrow> 'r request_fn \<Rightarrow> 'a TokenManager_scheme \<Rightarrow> (thrown + 'r) \<times> 'a TokenManager_scheme" where
  "attempt P request w =
     (case getToken P w of
        (Inl e, w1) \<Rightarrow> (Inl e, w1)
      | (Inr token, w1) \<Rightarrow> invoke request token w1)"

definition handle_error ::
  "platform \<Rightarrow> 'r request_fn \<Rightarrow> thrown \<Rightarrow> 'a TokenManager_scheme
     \<Rightarrow> (thrown + 'r) \<times> 'a TokenManager_scheme" where
  "handle_error P request e w =
     (if isRateLimitError e
      then (Inl (RateLimitError e), w\<lparr>backoffDelay := backoffDelay w * 2\<rparr>)
      else if isAuthError e
      then (case refreshToken P None w of
              (Inl e', w') \<Rightarrow> (Inl e', w')
            | (Inr token, w') \<Rightarrow> invoke request token w')
      else (Inl e, w))"

definition executeRequest ::
  "platform \<Rightarrow> 'r request_fn \<Rightarrow> 'a TokenManager_scheme \<Rightarrow> (thrown + 'r) \<times> 'a TokenManager_scheme" where
  "executeRequest P request w =
     (case attempt P request (waitForRateLimit w) of
        (Inr result, w1) \<Rightarrow>
          (Inr result, updateRateLimitInfo P (w1\<lparr>backoffDelay := DEFAULT_BACKOFF\<rparr>))
      | (Inl e, w1) \<Rightarrow> handle_error P request e w1)"

text \<open>
  Two calls of \<open>getToken\<close> issued together, before either has been answered. A call
  of an \<open>async\<close> method runs at once up to its first \<open>await\<close>, and the continuations
  up to the \<open>await fetch(...)\<close> are microtasks, which all run before any network answer
  is delivered: so both calls read the vault and send their requests before either
  resumes. The answers may arrive in either order.
\<close>

definition concurrent_getToken ::
  "platform \<Rightarrow> bool \<Rightarrow> 'a TokenManager_scheme
     \<Rightarrow> ((thrown + string) \<times> (thrown + string)) \<times> 'a TokenManager_scheme" where
  "concurrent_getToken P first_answer_first w =
     (case getToken_request P w of (s1, w1) \<Rightarrow>
      case getToken_request P w1 of (s2, w2) \<Rightarrow>
        if first_answer_first
        then (case resume P s1 w2 of (r1, w3) \<Rightarrow>
              case resume P s2 w3 of (r2, w4) \<Rightarrow> ((r1, r2), w4))
        else (case resume P s2 w2 of (r2, w3) \<Rightarrow>
              case resume P s1 w3 of (r1, w4) \<Rightarrow> ((r1, r2), w4)))"

section \<open>The device flow of github-device-flow.ts\<close>

text \<open>
  The state of the class: its vault, the device code, the polling parameters and the
  deadline.

  The vault is the \<open>CredentialVault\<close> that the file imports from
  \<open>security/vault.ts\<close>: an object that holds its \<open>credentials\<close>, a map from keys to
  strings, and has the methods \<open>get\<close>, \<open>set\<close> and \<open>remove\<close>. It has no method
  \<open>getSecret\<close>, \<open>setSecret\<close> or \<open>deleteSecret\<close>, which are the ones this class calls:
  each such call throws a \<open>TypeError\<close> before it does anything, and the credentials
  are neither read nor written.

  github-device-flow.ts builds its errors as \<open>new PRAutomatorError("auth", message, {error})\<close>;
  they are written here with the message first, like those of the token manager.
\<close>

record GitHubDeviceFlow = world +
  clientId :: string
  scopes :: "string list"
  credentials :: "string \<rightharpoonup> string"
  deviceCode :: "string option"
  pollInterval :: int
  maxAttempts :: int
  expiresAt :: "int option"

definition new_GitHubDeviceFlow ::
  "int \<Rightarrow> string \<Rightarrow> string list \<Rightarrow> (string \<rightharpoonup> string) \<Rightarrow> GitHubDeviceFlow" where
  "new_GitHubDeviceFlow t cid sc v =
     \<lparr>now = t, sleeps = [], fetched = [], clientId = cid, scopes = sc, credentials = v,
      deviceCode = None, pollInterval = 5000, maxAttempts = 12, expiresAt = None\<rparr>"

fun join :: "string list \<Rightarrow> string \<Rightarrow> string" where
  "join [] sep = []"
| "join [x] sep = x"
| "join (x # y # ys) sep = x @ sep @ join (y # ys) sep"

text \<open>
  The three calls on the vault. \<open>Inl m\<close> is a call that throws an error of message
  \<open>m\<close>; the message of the \<open>TypeError\<close> is the one Node gives.
\<close>

definition getSecret ::
  "string \<Rightarrow> 'a GitHubDeviceFlow_scheme \<Rightarrow> string + string option" where
  "getSecret key w = Inl ''this.vault.getSecret is not a function''"

definition setSecret ::
  "string \<Rightarrow> string \<Rightarrow> 'a GitHubDeviceFlow_scheme \<Rightarrow> string + 'a GitHubDeviceFlow_scheme" where
  "setSecret key v w = Inl ''this.vault.setSecret is not a function''"

definition deleteSecret ::
  "string \<Rightarrow> 'a GitHubDeviceFlow_scheme \<Rightarrow> string + 'a GitHubDeviceFlow_scheme" where
  "deleteSecret key w = Inl ''this.vault.deleteSecret is not a function''"

definition InitiateError :: "string \<Rightarrow> thrown" where
  "InitiateError m =
     PRAutomatorError (''Failed to initiate GitHub device flow: '' @ m) ''auth'' (Some (Error m))"

definition NotInitiatedError :: thrown where
  "NotInitiatedError =
     PRAutomatorError ''Device flow not initiated. Call initiate() first.'' ''auth'' None"

definition ExpiredError :: thrown where
  "ExpiredError =
     PRAutomatorError ''Device code has expired. Please initiate a new flow.'' ''auth'' None"

definition ObtainError :: "string \<Rightarrow> thrown" where
  "ObtainError m =
     PRAutomatorError (''Failed to obtain access token: '' @ m) ''auth'' (Some (Error m))"

definition MaxAttemptsError :: thrown where
  "MaxAttemptsError =
     PRAutomatorError ''Max polling attempts reached. Please try again.'' ''auth'' None"

definition RevokeError :: "string \<Rightarrow> thrown" where
  "RevokeError m =
     PRAutomatorError (''Failed to revoke GitHub token: '' @ m) ''auth'' (Some (Error m))"

definition initiate ::
  "platform \<Rightarrow> 'a GitHubDeviceFlow_scheme
     \<Rightarrow> (thrown + string \<times> string) \<times> 'a GitHubDeviceFlow_scheme" where
  "initiate P w =
     (case fetch (device_code_endpoint P) (DeviceCodeRequest (clientId w) (join (scopes w) '' '')) w of
        (Rejected m, w1) \<Rightarrow> (Inl (InitiateError m), w1)
      | (NotOk statusText b, w1) \<Rightarrow>
          (Inl (InitiateError (''Failed to initiate device flow: '' @ statusText)), w1)
      | (Ok data, w1) \<Rightarrow>
          (Inr (verification_uri data, user_code data),
           w1\<lparr>deviceCode := Some (device_code data),
              pollInterval := interval data * 1000,
              expiresAt := Some (now w1 + expires_in data * 1000)\<rparr>))"

text \<open>
  One pass through the \<open>try\<close> block of \<open>poll\<close>: the token (stored, to be returned),
  \<open>Pending\<close> after the wait that follows an \<open>authorization_pending\<close> answer, or the
  error thrown inside the block, by its message. The call that stores the token is
  inside the block, so what it throws is thrown there too.
\<close>

datatype poll_step = Token string | Pending | Failed string

definition poll_try ::
  "platform \<Rightarrow> string \<Rightarrow> 'a GitHubDeviceFlow_scheme \<Rightarrow> poll_step \<times> 'a GitHubDeviceFlow_scheme" where
  "poll_try P dc w =
     (case fetch (access_token_endpoint P) (TokenPollRequest (clientId w) dc) w of
        (Rejected m, w1) \<Rightarrow> (Failed m, w1)
      | (NotOk statusText b, w1) \<Rightarrow>
          if error b = Some ''authorization_pending''
          then (Pending, sleep (pollInterval w1) w1)
          else (Failed (case error_description b of
                          None \<Rightarrow> statusText
                        | Some d \<Rightarrow> if d = [] then statusText else d), w1)
      | (Ok data, w1) \<Rightarrow>
          (case setSecret ''github_token'' (tr_access_token data) w1 of
             Inl m \<Rightarrow> (Failed m, w1)
           | Inr w2 \<Rightarrow> (Token (tr_access_token data), w2)))"

text \<open>
  The \<open>while\<close> loop of \<open>poll\<close>. The \<open>catch\<close> rethrows only on the last attempt; before
  that it falls through to the next pass, with \<open>attempts\<close> as it was and without a wait,
  so the loop need not end: the first argument bounds the number of passes, and \<open>None\<close>
  is a loop that has not ended within the bound.
\<close>

fun poll_loop ::
  "nat \<Rightarrow> platform \<Rightarrow> string \<Rightarrow> int \<Rightarrow> 'a GitHubDeviceFlow_scheme
     \<Rightarrow> ((thrown + string) \<times> 'a GitHubDeviceFlow_scheme) option" where
  "poll_loop 0 P dc attempts w = None"
| "poll_loop (Suc fuel) P dc attempts w =
     (if attempts < maxAttempts w
      then (case poll_try P dc w of
              (Token t, w1) \<Rightarrow> Some (Inr t, w1)
            | (Pending, w1) \<Rightarrow> poll_loop fuel P dc (attempts + 1) w1
            | (Failed m, w1) \<Rightarrow>
                if attempts = maxAttempts w1 - 1 then Some (Inl (ObtainError m), w1)
                else poll_loop fuel P dc attempts w1)
      else Some (Inl MaxAttemptsError, w))"

definition poll ::
  "nat \<Rightarrow> platform \<Rightarrow> 'a GitHubDeviceFlow_scheme
     \<Rightarrow> ((thrown + string) \<times> 'a GitHubDeviceFlow_scheme) option" where
  "poll fuel P w =
     (case deviceCode w of
        None \<Rightarrow> Some (Inl NotInitiatedError, w)
      | Some dc \<Rightarrow>
          if dc = [] then Some (Inl NotInitiatedError, w)
          else if (case expiresAt w of None \<Rightarrow> False | Some e \<Rightarrow> now w > e)
          then Some (Inl ExpiredError, w)
          else poll_loop fuel P dc 0 w)"

text \<open>
  \<open>revoke\<close>: the whole body is one \<open>try\<close> block, the reading of the token included,
  and the \<open>catch\<close> wraps whatever was thrown.
\<close>

definition revoke ::
  "platform \<Rightarrow> 'a GitHubDeviceFlow_scheme \<Rightarrow> (thrown + unit) \<times> 'a GitHubDeviceFlow_scheme" where
  "revoke P w =
     (case getSecret ''github_token'' w of
        Inl m \<Rightarrow> (Inl (RevokeError m), w)
      | Inr None \<Rightarrow> (Inr (), w)
      | Inr (Some token) \<Rightarrow>
          if token = [] then (Inr (), w)
          else (case fetch (revoke_endpoint P) (RevokeRequest (clientId w) token) w of
                  (Rejected m, w1) \<Rightarrow> (Inl (RevokeError m), w1)
                | (NotOk statusText b, w1) \<Rightarrow>
                    (Inl (RevokeError (''Failed to revoke token: '' @ statusText)), w1)
                | (Ok u, w1) \<Rightarrow>
                    (case deleteSecret ''github_token'' w1 of
                       Inl m \<Rightarrow> (Inl (RevokeError m), w1)
                     | Inr w2 \<Rightarrow> (Inr (), w2))))"

section \<open>The device flow of device-flow.ts\<close>
















section \<open>Mocked platforms and requests for the concrete runs\<close>

text \<open>
  A mocked \<open>JSON\<close> that knows the strings of the runs below, and endpoints that reject
  every request until a run replaces them.
\<close>

definition mock_table :: "(string \<times> TokenInfo) list" where
  "mock_table =
     [(''{old-token}'',
       \<lparr>access_token = ''old-token'', expires_at = Some 3600000,
        refresh_token = Some ''refresh-token''\<rparr>),
      (''{new-token}'',
       \<lparr>access_token = ''new-token'', expires_at = Some 3601000,
        refresh_token = Some ''new-refresh-token''\<rparr>),
      (''{t1}'', \<lparr>access_token = ''t1'', expires_at = None, refresh_token = Some ''r1''\<rparr>),
      (''{pat}'', \<lparr>access_token = ''pat'', expires_at = None, refresh_token = None\<rparr>)]"

definition mock_platform :: platform where
  "mock_platform =
     \<lparr>JSON_parse = map_of mock_table,
      JSON_stringify =
        (\<lambda>t. case find (\<lambda>p. snd p = t) mock_table of None \<Rightarrow> ''{}'' | Some p \<Rightarrow> fst p),
      JSON_stringify_RateLimitInfo = (\<lambda>r. ''{rate-limit}''),
      device_code_endpoint = (\<lambda>h. Rejected ''no mock''),
      access_token_endpoint = (\<lambda>h. Rejected ''no mock''),
      rate_limit_endpoint = (\<lambda>h. Rejected ''no mock''),
      verify_endpoint = (\<lambda>h. Rejected ''no mock''),
      revoke_endpoint = (\<lambda>h. Rejected ''no mock'')\<rparr>"

text \<open>
  A request function that always fails with status 429, and the manager after \<open>n\<close>
  calls of \<open>executeRequest\<close> with it, starting from a fresh manager whose vault holds a
  token that does not expire.
\<close>

definition always_rate_limited :: "unit request_fn" where
  "always_rate_limited n token = Inl (JsError (Some 429) None)"

definition rate_limited_run :: "nat \<Rightarrow> TokenManager" where
  "rate_limited_run n =
     ((\<lambda>w. snd (executeRequest mock_platform always_rate_limited w)) ^^ n)
       (new_TokenManager 0 [TOKEN_INFO_KEY \<mapsto> ''{t1}''])"

text \<open>
  A manager that has just completed a request at time 10500 ms and learnt from the
  rate-limit endpoint that its quota is exhausted until second 11.
\<close>

definition quota_platform :: platform where
  "quota_platform =
     mock_platform
       \<lparr>rate_limit_endpoint := (\<lambda>h. Ok \<lparr>limit = 5000, remaining = 0, reset = 11\<rparr>)\<rparr>"

definition succeeding :: "string request_fn" where
  "succeeding n token = Inr ''done''"

definition throttled_manager :: TokenManager where
  "throttled_manager =
     snd (executeRequest quota_platform succeeding
            (new_TokenManager 10500 [TOKEN_INFO_KEY \<mapsto> ''{t1}'']))"

text \<open>
  A request function whose first invocation fails with status 401 and whose later
  invocations have a given outcome; a platform whose token endpoint grants every
  refresh; a manager whose vault holds a token without a refresh token.
\<close>

definition unauthorized_then :: "(thrown + string) \<Rightarrow> string request_fn" where
  "unauthorized_then second n token =
     (if n = 0 then Inl (JsError (Some 401) None) else second)"

definition refreshing_platform :: platform where
  "refreshing_platform =
     mock_platform
       \<lparr>access_token_endpoint :=
          (\<lambda>h. Ok \<lparr>tr_access_token = ''new-token'', tr_token_type = ''bearer'',
                    tr_scope = ''repo'', tr_refresh_token = Some ''new-refresh-token'',
                    tr_expires_in = Some 3600\<rparr>)\<rparr>"

definition pat_manager :: TokenManager where
  "pat_manager = new_TokenManager 0 [TOKEN_INFO_KEY \<mapsto> ''{pat}'']"

text \<open>A platform whose token endpoint refuses every refresh.\<close>

definition refusing_platform :: platform where
  "refusing_platform =
     mock_platform
       \<lparr>access_token_endpoint :=
          (\<lambda>h. NotOk ''Bad Request''
                  \<lparr>error = Some ''bad_refresh_token'', error_description = None\<rparr>)\<rparr>"

text \<open>
  A token endpoint that grants the first refresh and refuses every later one, as a
  provider does that rotates refresh tokens; a manager whose stored token expires in
  100 seconds.
\<close>

definition rotating_platform :: platform where
  "rotating_platform =
     mock_platform
       \<lparr>access_token_endpoint :=
          (\<lambda>h. if length h = 1
               then Ok \<lparr>tr_access_token = ''new-token'', tr_token_type = ''bearer'',
                        tr_scope = ''repo'', tr_refresh_token = Some ''new-refresh-token'',
                        tr_expires_in = Some 3600\<rparr>
               else NotOk ''Bad Request''
                      \<lparr>error = Some ''bad_refresh_token'', error_description = None\<rparr>)\<rparr>"

definition expiring_manager :: TokenManager where
  "expiring_manager = new_TokenManager 3500000 [TOKEN_INFO_KEY \<mapsto> ''{old-token}'']"

section \<open>Mocked device flows\<close>

text \<open>
  The token endpoint never grants: every answer is \<open>authorization_pending\<close>.
\<close>

definition always_pending :: "platform \<Rightarrow> bool" where
  "always_pending P =
     (\<forall>h. \<exists>statusText b. access_token_endpoint P h = NotOk statusText b \<and>
                            error b = Some ''authorization_pending'')"

text \<open>
  Answers of the token endpoint, and a token endpoint that gives the answers of a list
  in turn, one for each polling request, and the last of them ever after.
\<close>

definition pending :: "TokenResponse reply" where
  "pending = NotOk ''Bad Request''
               \<lparr>error = Some ''authorization_pending'', error_description = None\<rparr>"


definition denied :: "TokenResponse reply" where
  "denied = NotOk ''Bad Request''
              \<lparr>error = Some ''access_denied'',
               error_description = Some ''The user has denied your application access.''\<rparr>"

definition granted :: "TokenResponse reply" where
  "granted = Ok \<lparr>tr_access_token = ''gho_mock123'', tr_token_type = ''bearer'',
                 tr_scope = ''repo'', tr_refresh_token = None, tr_expires_in = None\<rparr>"

fun is_TokenPollRequest :: "request \<Rightarrow> bool" where
  "is_TokenPollRequest (TokenPollRequest c d) = True"
| "is_TokenPollRequest r = False"

definition answers :: "TokenResponse reply list \<Rightarrow> request list \<Rightarrow> TokenResponse reply" where
  "answers rs h =
     (let k = length (filter is_TokenPollRequest h) - 1
      in if k < length rs then rs ! k else last rs)"

text \<open>
  A platform whose device-code endpoint answers as in the scenario of the
  specification (\<open>expires_in = 900\<close>, \<open>interval = 5\<close>), and the flow after \<open>initiate\<close> at
  time 0.
\<close>

definition device_platform :: "(request list \<Rightarrow> TokenResponse reply) \<Rightarrow> platform" where
  "device_platform token_endpoint =
     mock_platform
       \<lparr>device_code_endpoint :=
          (\<lambda>h. Ok \<lparr>device_code = ''d1'', user_code = ''U1'',
                    verification_uri = ''https://x/device'', expires_in = 900, interval = 5\<rparr>),
        access_token_endpoint := token_endpoint,
        verify_endpoint := (\<lambda>h. Ok ()),
        revoke_endpoint := (\<lambda>h. Ok ())\<rparr>"

definition initiated_flow :: GitHubDeviceFlow where
  "initiated_flow =
     snd (initiate (device_platform (answers [pending]))
            (new_GitHubDeviceFlow 0 ''client-id'' [''repo'', ''user''] Map.empty))"




section \<open>Properties of the token manager\<close>

text \<open>
  What each operation of the manager leaves alone: only \<open>executeRequest\<close> assigns to the
  backoff delay, and only \<open>invoke\<close> records a call.
\<close>

lemma storeToken_frame:
  "backoffDelay (storeToken P a e r w) = backoffDelay w"
  "calls (storeToken P a e r w) = calls w"
  "fetched (storeToken P a e r w) = fetched w"
  "now (storeToken P a e r w) = now w"
  by (simp_all add: storeToken_def)

lemma refreshToken_response_frame:
  "backoffDelay (snd (refreshToken_response P r w)) = backoffDelay w"
  "calls (snd (refreshToken_response P r w)) = calls w"
  "fetched (snd (refreshToken_response P r w)) = fetched w"
  by (simp_all add: refreshToken_response_def storeToken_frame split: reply.splits)

lemma resume_frame:
  "backoffDelay (snd (resume P s w)) = backoffDelay w"
  "calls (snd (resume P s w)) = calls w"
  "fetched (snd (resume P s w)) = fetched w"
  by (simp_all add: resume_def refreshToken_response_frame split: suspended.splits)

lemma refreshToken_request_frame:
  "backoffDelay (snd (refreshToken_request P g w)) = backoffDelay w"
  "calls (snd (refreshToken_request P g w)) = calls w"
  by (simp_all add: refreshToken_request_def fetch_def Let_def split: option.splits)

lemma refreshToken_frame:
  "backoffDelay (snd (refreshToken P g w)) = backoffDelay w"
  "calls (snd (refreshToken P g w)) = calls w"
  by (simp_all add: refreshToken_def split_beta resume_frame refreshToken_request_frame)

lemma getToken_request_frame:
  "backoffDelay (snd (getToken_request P w)) = backoffDelay w"
  "calls (snd (getToken_request P w)) = calls w"
  by (simp_all add: getToken_request_def refreshToken_request_frame split: option.splits)

lemma getToken_frame:
  "backoffDelay (snd (getToken P w)) = backoffDelay w"
  "calls (snd (getToken P w)) = calls w"
  by (simp_all add: getToken_def split_beta resume_frame getToken_request_frame)

lemma updateRateLimitInfo_frame:
  "backoffDelay (updateRateLimitInfo P w) = backoffDelay w"
  "calls (updateRateLimitInfo P w) = calls w"
proof -
  obtain r w1 where g: "getToken P w = (r, w1)" by (cases "getToken P w")
  have "backoffDelay w1 = backoffDelay w" "calls w1 = calls w"
    using getToken_frame [of P w] g by simp_all
  then show "backoffDelay (updateRateLimitInfo P w) = backoffDelay w"
    "calls (updateRateLimitInfo P w) = calls w"
    by (simp_all add: updateRateLimitInfo_def g fetch_def split: sum.splits reply.splits)
qed

lemma waitForRateLimit_frame:
  "backoffDelay (waitForRateLimit w) = backoffDelay w"
  "calls (waitForRateLimit w) = calls w"
  "vault (waitForRateLimit w) = vault w"
  "fetched (waitForRateLimit w) = fetched w"
  by (simp_all add: waitForRateLimit_def sleep_def Let_def split: option.splits)

lemma attempt_frame:
  "backoffDelay (snd (attempt P request w)) = backoffDelay w"
proof -
  obtain r w1 where g: "getToken P w = (r, w1)" by (cases "getToken P w")
  have "backoffDelay w1 = backoffDelay w"
    using getToken_frame(1) [of P w] g by simp
  then show ?thesis
    by (simp add: attempt_def g invoke_def split: sum.splits)
qed

lemma handle_error_backoff:
  "backoffDelay (snd (handle_error P request e w)) =
     (if isRateLimitError e then backoffDelay w * 2 else backoffDelay w)"
proof -
  obtain r w1 where g: "refreshToken P None w = (r, w1)" by (cases "refreshToken P None w")
  have "backoffDelay w1 = backoffDelay w"
    using refreshToken_frame(1) [of P None w] g by simp
  then show ?thesis
    by (simp add: handle_error_def g invoke_def split: sum.splits)
qed

lemma executeRequest_backoff:
  "backoffDelay (snd (executeRequest P request w)) =
     (case fst (attempt P request (waitForRateLimit w)) of
        Inr result \<Rightarrow> DEFAULT_BACKOFF
      | Inl e \<Rightarrow> if isRateLimitError e then backoffDelay w * 2 else backoffDelay w)"
proof -
  obtain r w1 where a: "attempt P request (waitForRateLimit w) = (r, w1)"
    by (cases "attempt P request (waitForRateLimit w)")
  have "backoffDelay w1 = backoffDelay w"
    using attempt_frame [of P request "waitForRateLimit w"] a
    by (simp add: waitForRateLimit_frame)
  then show ?thesis
    by (simp add: executeRequest_def a handle_error_backoff updateRateLimitInfo_frame
        split: sum.splits)
qed

text \<open>
  Claim C9. A value under the token key that \<open>JSON.parse\<close> rejects is treated as no
  record at all: \<open>getToken\<close> raises the no-token error, the same result as with the key
  removed, and changes nothing.
\<close>

theorem C9_corrupted_record:
  assumes "vault w TOKEN_INFO_KEY = Some data" and "JSON_parse P data = None"
  shows "getToken P w = (Inl NoTokenError, w) \<and>
         getToken P w = (fst (getToken P (w\<lparr>vault := (vault w)(TOKEN_INFO_KEY := None)\<rparr>)), w)"
  using assms
  by (simp add: getToken_def getToken_request_def getStoredTokenInfo_def resume_def)

theorem C9_corrupted_record_witness:
  "vault (new_TokenManager 0 [TOKEN_INFO_KEY \<mapsto> ''{not json'']) TOKEN_INFO_KEY
     = Some ''{not json'' \<and>
   JSON_parse mock_platform ''{not json'' = None \<and>
   getToken mock_platform (new_TokenManager 0 [TOKEN_INFO_KEY \<mapsto> ''{not json''])
     = (Inl NoTokenError, new_TokenManager 0 [TOKEN_INFO_KEY \<mapsto> ''{not json''])"
  using C9_corrupted_record
    [of "new_TokenManager 0 [TOKEN_INFO_KEY \<mapsto> ''{not json'']" "''{not json''" mock_platform]
  by (simp add: new_TokenManager_def mock_platform_def mock_table_def)

lemma getToken_no_expiry:
  assumes "getStoredTokenInfo P w = Some ti" and "expires_at ti = None"
  shows "getToken P w = (Inr (access_token ti), w)"
  using assms
  by (simp add: getToken_def getToken_request_def shouldRefreshToken_def resume_def)

text \<open>
  Claim C10. \<open>storeToken(accessToken, 0, refreshToken)\<close> persists a record without
  \<open>expires_at\<close>; in any later state \<open>w'\<close> whose vault still holds that record,
  \<open>getToken\<close> returns the access token, whatever the time, without a request and
  without any other effect. The two hypotheses on \<open>JSON\<close> say that the record survives
  \<open>JSON.stringify\<close> and \<open>JSON.parse\<close>.
\<close>

theorem C10_zero_expiry:
  assumes "ti = \<lparr>access_token = a, expires_at = None,
                 refresh_token = (case r of None \<Rightarrow> None | Some x \<Rightarrow> if x = [] then None else Some x)\<rparr>"
    and "JSON_stringify P ti \<noteq> []"
    and "JSON_parse P (JSON_stringify P ti) = Some ti"
    and "vault w' TOKEN_INFO_KEY = vault (storeToken P a (Some 0) r w) TOKEN_INFO_KEY"
  shows "vault (storeToken P a (Some 0) r w) TOKEN_INFO_KEY = Some (JSON_stringify P ti) \<and>
         getToken P w' = (Inr a, w')"
proof -
  have stored: "vault (storeToken P a (Some 0) r w) TOKEN_INFO_KEY = Some (JSON_stringify P ti)"
    using assms(1) by (simp add: storeToken_def)
  have "getStoredTokenInfo P w' = Some ti"
    using assms(2,3,4) stored by (simp add: getStoredTokenInfo_def)
  then have "getToken P w' = (Inr a, w')"
    using getToken_no_expiry [of P w' ti] assms(1) by simp
  then show ?thesis using stored by simp
qed

theorem C10_zero_expiry_witness:
  "JSON_stringify mock_platform
     \<lparr>access_token = ''t1'', expires_at = None, refresh_token = Some ''r1''\<rparr> \<noteq> [] \<and>
   JSON_parse mock_platform
     (JSON_stringify mock_platform
        \<lparr>access_token = ''t1'', expires_at = None, refresh_token = Some ''r1''\<rparr>)
     = Some \<lparr>access_token = ''t1'', expires_at = None, refresh_token = Some ''r1''\<rparr> \<and>
   vault (storeToken mock_platform ''t1'' (Some 0) (Some ''r1'') (new_TokenManager 0 Map.empty))
     TOKEN_INFO_KEY = Some ''{t1}'' \<and>
   getToken mock_platform
     ((storeToken mock_platform ''t1'' (Some 0) (Some ''r1'') (new_TokenManager 0 Map.empty))
        \<lparr>now := 1000000000000\<rparr>)
     = (Inr ''t1'',
        (storeToken mock_platform ''t1'' (Some 0) (Some ''r1'') (new_TokenManager 0 Map.empty))
          \<lparr>now := 1000000000000\<rparr>)"
proof -
  let ?ti = "\<lparr>access_token = ''t1'', expires_at = None, refresh_token = Some ''r1''\<rparr>"
  let ?w = "storeToken mock_platform ''t1'' (Some 0) (Some ''r1'') (new_TokenManager 0 Map.empty)"
  have h1: "?ti = \<lparr>access_token = ''t1'', expires_at = None,
                    refresh_token = (case Some ''r1'' of None \<Rightarrow> None
                                     | Some x \<Rightarrow> if x = [] then None else Some x)\<rparr>"
    by simp
  have h2: "JSON_stringify mock_platform ?ti \<noteq> []"
    by (simp add: mock_platform_def mock_table_def)
  have h3: "JSON_parse mock_platform (JSON_stringify mock_platform ?ti) = Some ?ti"
    by (simp add: mock_platform_def mock_table_def)
  have h4: "vault (?w\<lparr>now := 1000000000000\<rparr>) TOKEN_INFO_KEY = vault ?w TOKEN_INFO_KEY"
    by simp
  have s: "JSON_stringify mock_platform ?ti = ''{t1}''"
    by (simp add: mock_platform_def mock_table_def)
  show ?thesis
    using C10_zero_expiry [OF h1 h2 h3 h4] h2 h3 s by simp
qed

text \<open>
  Claim C7, as the code has it. \<open>waitForRateLimit\<close> always serves the backoff wait
  first; with an exhausted quota it then waits for what is left until the reset. The two
  waits follow each other, so the whole wait is the larger of the backoff wait and the
  time to the reset, and it is the backoff wait alone when no snapshot is held or the
  quota is not exhausted.
\<close>

theorem C7_wait:
  "now (waitForRateLimit w) - now w =
     (let backoffWait = max 0 (backoffDelay w - (now w - lastRequest w)) in
      case rateLimitInfo w of
        None \<Rightarrow> backoffWait
      | Some info \<Rightarrow>
          if remaining info = 0 then max backoffWait (reset info * 1000 - now w)
          else backoffWait)"
  by (auto simp: waitForRateLimit_def sleep_def Let_def split: option.splits)

lemma throttled_manager_eq:
  "throttled_manager =
     \<lparr>now = 10500, sleeps = [], fetched = [RateLimitRequest ''t1''],
      vault = [TOKEN_INFO_KEY \<mapsto> ''{t1}'', RATE_LIMIT_KEY \<mapsto> ''{rate-limit}''],
      rateLimitInfo = Some \<lparr>limit = 5000, remaining = 0, reset = 11\<rparr>,
      lastRequest = 10500, backoffDelay = 1000, calls = [''t1'']\<rparr>"
proof -
  let ?w0 = "new_TokenManager 10500 [TOKEN_INFO_KEY \<mapsto> ''{t1}'']"
  let ?w1 = "\<lparr>now = 10500, sleeps = [], fetched = [],
              vault = [TOKEN_INFO_KEY \<mapsto> ''{t1}''], rateLimitInfo = None,
              lastRequest = 10500, backoffDelay = 1000, calls = []\<rparr>"
  let ?w2 = "?w1\<lparr>calls := [''t1'']\<rparr>"
  have g: "getToken quota_platform w' = (Inr ''t1'', w')"
    if "vault w' TOKEN_INFO_KEY = Some ''{t1}''" for w' :: TokenManager
    using that getToken_no_expiry
      [of quota_platform w' "\<lparr>access_token = ''t1'', expires_at = None, refresh_token = Some ''r1''\<rparr>"]
    by (simp add: getStoredTokenInfo_def quota_platform_def mock_platform_def mock_table_def)
  have w: "waitForRateLimit ?w0 = ?w1"
    by (simp add: waitForRateLimit_def new_TokenManager_def DEFAULT_BACKOFF_def)
  have a: "attempt quota_platform succeeding ?w1 = (Inr ''done'', ?w2)"
    by (simp add: attempt_def g invoke_def succeeding_def)
  have u: "updateRateLimitInfo quota_platform
             \<lparr>now = 10500, sleeps = [], fetched = [],
              vault = [TOKEN_INFO_KEY \<mapsto> ''{t1}''], rateLimitInfo = None,
              lastRequest = 10500, backoffDelay = 1000, calls = [''t1'']\<rparr> =
             \<lparr>now = 10500, sleeps = [], fetched = [RateLimitRequest ''t1''],
              vault = [TOKEN_INFO_KEY \<mapsto> ''{t1}'', RATE_LIMIT_KEY \<mapsto> ''{rate-limit}''],
              rateLimitInfo = Some \<lparr>limit = 5000, remaining = 0, reset = 11\<rparr>,
              lastRequest = 10500, backoffDelay = 1000, calls = [''t1'']\<rparr>"
    apply (simp add: updateRateLimitInfo_def g fetch_def)
    apply (simp add: quota_platform_def mock_platform_def)
    done
  show ?thesis
    by (simp add: throttled_manager_def executeRequest_def w a DEFAULT_BACKOFF_def u)
qed

text \<open>
  Claim C7 as stated fails: with no quota left and the reset 500 ms away, the manager
  waits the whole backoff delay of 1000 ms, not the 500 ms to the reset.
\<close>

theorem C7_counterexample:
  "rateLimitInfo throttled_manager = Some \<lparr>limit = 5000, remaining = 0, reset = 11\<rparr> \<and>
   now throttled_manager < 11 * 1000 \<and>
   11 * 1000 - now throttled_manager = 500 \<and>
   now (waitForRateLimit throttled_manager) - now throttled_manager = 1000 \<and>
   sleeps (waitForRateLimit throttled_manager) = [1000]"
  by (simp add: throttled_manager_eq waitForRateLimit_def sleep_def)

lemma rate_limited_step:
  assumes "vault w TOKEN_INFO_KEY = Some ''{t1}''"
  shows "vault (snd (executeRequest mock_platform always_rate_limited w)) = vault w \<and>
         backoffDelay (snd (executeRequest mock_platform always_rate_limited w)) = backoffDelay w * 2"
proof -
  let ?w = "waitForRateLimit w"
  have "getStoredTokenInfo mock_platform ?w
          = Some \<lparr>access_token = ''t1'', expires_at = None, refresh_token = Some ''r1''\<rparr>"
    using assms
    by (simp add: getStoredTokenInfo_def waitForRateLimit_frame mock_platform_def mock_table_def)
  then have "getToken mock_platform ?w = (Inr ''t1'', ?w)"
    using getToken_no_expiry by fastforce
  then show ?thesis
    by (simp add: executeRequest_def attempt_def invoke_def always_rate_limited_def
        handle_error_def isRateLimitError_def waitForRateLimit_frame)
qed

lemma rate_limited_run_backoff:
  "vault (rate_limited_run n) TOKEN_INFO_KEY = Some ''{t1}'' \<and>
   backoffDelay (rate_limited_run n) = 1000 * 2 ^ n"
proof (induction n)
  case 0
  show ?case by (simp add: rate_limited_run_def new_TokenManager_def DEFAULT_BACKOFF_def)
next
  case (Suc n)
  have "rate_limited_run (Suc n)
          = snd (executeRequest mock_platform always_rate_limited (rate_limited_run n))"
    by (simp add: rate_limited_run_def)
  then show ?case
    using Suc rate_limited_step [of "rate_limited_run n"] by simp
qed

text \<open>
  Claim C6, as the code has it. \<open>executeRequest\<close> sets the backoff delay to the base
  value of 1000 ms when the \<open>try\<close> block throws nothing (the token was obtained and the
  first invocation of the request succeeded), doubles it, without any bound, when the
  error caught is a rate-limit error, and leaves it as it was after any other error.
  No other operation of the manager changes it.
\<close>

theorem C6_backoff:
  "backoffDelay (snd (executeRequest P request w)) =
     (case fst (attempt P request (waitForRateLimit w)) of
        Inr result \<Rightarrow> DEFAULT_BACKOFF
      | Inl e \<Rightarrow> if isRateLimitError e then backoffDelay w * 2 else backoffDelay w) \<and>
   backoffDelay (waitForRateLimit w) = backoffDelay w \<and>
   backoffDelay (snd (getToken P w)) = backoffDelay w \<and>
   backoffDelay (snd (refreshToken P given w)) = backoffDelay w \<and>
   backoffDelay (storeToken P a e r w) = backoffDelay w \<and>
   backoffDelay (updateRateLimitInfo P w) = backoffDelay w \<and>
   DEFAULT_BACKOFF = 1000"
  by (simp add: executeRequest_backoff waitForRateLimit_frame getToken_frame refreshToken_frame
      storeToken_frame updateRateLimitInfo_frame DEFAULT_BACKOFF_def)

text \<open>
  Claim C6 as stated fails: no constant bounds the backoff delay. After \<open>n\<close> requests in
  a row that hit the rate limit the delay is \<open>1000 * 2 ^ n\<close> ms.
\<close>

theorem C6_counterexample:
  "\<not> (\<exists>MAX_BACKOFF. \<forall>n. backoffDelay (rate_limited_run n) \<le> MAX_BACKOFF)"
proof
  assume "\<exists>MAX_BACKOFF. \<forall>n. backoffDelay (rate_limited_run n) \<le> MAX_BACKOFF"
  then obtain M where M: "\<And>n. backoffDelay (rate_limited_run n) \<le> M" by blast
  define n where "n = nat M"
  have "M \<le> int n" by (simp add: n_def)
  also have "int n < 2 ^ n"
    using less_exp [of n] of_nat_less_iff [of n "2 ^ n", where ?'a = int] by simp
  also have "(2::int) ^ n \<le> 1000 * 2 ^ n" by simp
  finally have "M < backoffDelay (rate_limited_run n)"
    by (simp add: rate_limited_run_backoff)
  then show False using M [of n] by simp
qed

text \<open>
  Claim C2, as the code has it. Let the token be obtained, let the first invocation of
  the request fail with an error that \<open>isAuthError\<close> accepts and \<open>isRateLimitError\<close>
  (tested first) does not, and let the refresh succeed: the stored record has a refresh
  token and the token endpoint grants it. Then exactly one refresh request is sent, the
  request function is invoked exactly once more, with the refreshed token, and the
  outcome of that second invocation is the outcome of \<open>executeRequest\<close>: its result if
  it succeeds, its own error, unchanged, if it fails.

  If the refresh fails instead, the error of the refresh is the outcome of
  \<open>executeRequest\<close> and the request function has been invoked once only, with the first
  token: so it is when the refresh request is rejected, when the token endpoint answers
  it with a status that is not \<open>ok\<close> (one refresh request is sent in both cases), and
  when the stored record has no refresh token (no request is sent).
\<close>

theorem C2_retry_after_refresh:
  assumes "getToken P (waitForRateLimit w) = (Inr token, w1)"
    and "request (length (calls w)) token = Inl e"
    and "isAuthError e" and "\<not> isRateLimitError e"
  shows "(getStoredTokenInfo P w1 = Some ti \<and> refresh_token ti = Some rt \<and> rt \<noteq> [] \<and>
          access_token_endpoint P (fetched w1 @ [RefreshRequest rt]) = Ok data
            \<longrightarrow> fst (executeRequest P request w)
                  = request (length (calls w) + 1) (tr_access_token data) \<and>
                calls (snd (executeRequest P request w))
                  = calls w @ [token, tr_access_token data] \<and>
                fetched (snd (executeRequest P request w)) = fetched w1 @ [RefreshRequest rt]) \<and>
         (getStoredTokenInfo P w1 = Some ti \<and> refresh_token ti = Some rt \<and> rt \<noteq> [] \<and>
          access_token_endpoint P (fetched w1 @ [RefreshRequest rt]) = Rejected m
            \<longrightarrow> executeRequest P request w =
                  (Inl (RefreshFailedError (Error m)),
                   w1\<lparr>calls := calls w @ [token],
                      fetched := fetched w1 @ [RefreshRequest rt]\<rparr>)) \<and>
         (getStoredTokenInfo P w1 = Some ti \<and> refresh_token ti = Some rt \<and> rt \<noteq> [] \<and>
          access_token_endpoint P (fetched w1 @ [RefreshRequest rt]) = NotOk statusText b
            \<longrightarrow> executeRequest P request w =
                  (Inl (RefreshFailedError (Error (''Token refresh failed: '' @ statusText))),
                   w1\<lparr>calls := calls w @ [token],
                      fetched := fetched w1 @ [RefreshRequest rt]\<rparr>)) \<and>
         (getStoredTokenInfo P w1 = None \<or>
          (\<exists>ti'. getStoredTokenInfo P w1 = Some ti' \<and>
                 (refresh_token ti' = None \<or> refresh_token ti' = Some []))
            \<longrightarrow> executeRequest P request w =
                  (Inl NoRefreshTokenError, w1\<lparr>calls := calls w @ [token]\<rparr>))"
proof -
  have c: "calls w1 = calls w"
    using getToken_frame(2) [of P "waitForRateLimit w"] assms(1)
    by (simp add: waitForRateLimit_frame)
  let ?w1 = "w1\<lparr>calls := calls w @ [token]\<rparr>"
  have a: "attempt P request (waitForRateLimit w) = (Inl e, ?w1)"
    using assms(1,2) c by (simp add: attempt_def invoke_def)
  have x: "executeRequest P request w =
             (case refreshToken P None ?w1 of
                (Inl e', w') \<Rightarrow> (Inl e', w')
              | (Inr token', w') \<Rightarrow> invoke request token' w')"
    using assms(3,4) by (simp add: executeRequest_def a handle_error_def)
  have g: "getStoredTokenInfo P ?w1 = getStoredTokenInfo P w1"
    by (simp add: getStoredTokenInfo_def)
  have granted:
    "fst (executeRequest P request w) = request (length (calls w) + 1) (tr_access_token data) \<and>
     calls (snd (executeRequest P request w)) = calls w @ [token, tr_access_token data] \<and>
     fetched (snd (executeRequest P request w)) = fetched w1 @ [RefreshRequest rt]"
    if "getStoredTokenInfo P w1 = Some ti" and "refresh_token ti = Some rt" and "rt \<noteq> []"
      and "access_token_endpoint P (fetched w1 @ [RefreshRequest rt]) = Ok data"
  proof -
    have "refreshToken P None ?w1 =
             (Inr (tr_access_token data),
              storeToken P (tr_access_token data) (tr_expires_in data) (tr_refresh_token data)
                (?w1\<lparr>fetched := fetched w1 @ [RefreshRequest rt]\<rparr>))"
      using g that
      by (simp add: refreshToken_def refreshToken_request_def fetch_def resume_def
          refreshToken_response_def)
    then show ?thesis by (simp add: x invoke_def storeToken_frame)
  qed
  have rejected:
    "executeRequest P request w =
       (Inl (RefreshFailedError (Error m)),
        w1\<lparr>calls := calls w @ [token], fetched := fetched w1 @ [RefreshRequest rt]\<rparr>)"
    if "getStoredTokenInfo P w1 = Some ti" and "refresh_token ti = Some rt" and "rt \<noteq> []"
      and "access_token_endpoint P (fetched w1 @ [RefreshRequest rt]) = Rejected m"
  proof -
    have "refreshToken P None ?w1 =
             (Inl (RefreshFailedError (Error m)),
              ?w1\<lparr>fetched := fetched w1 @ [RefreshRequest rt]\<rparr>)"
      using g that
      by (simp add: refreshToken_def refreshToken_request_def fetch_def resume_def
          refreshToken_response_def)
    then show ?thesis by (simp add: x)
  qed
  have refused:
    "executeRequest P request w =
       (Inl (RefreshFailedError (Error (''Token refresh failed: '' @ statusText))),
        w1\<lparr>calls := calls w @ [token], fetched := fetched w1 @ [RefreshRequest rt]\<rparr>)"
    if "getStoredTokenInfo P w1 = Some ti" and "refresh_token ti = Some rt" and "rt \<noteq> []"
      and "access_token_endpoint P (fetched w1 @ [RefreshRequest rt]) = NotOk statusText b"
  proof -
    have "refreshToken P None ?w1 =
             (Inl (RefreshFailedError (Error (''Token refresh failed: '' @ statusText))),
              ?w1\<lparr>fetched := fetched w1 @ [RefreshRequest rt]\<rparr>)"
      using g that
      by (simp add: refreshToken_def refreshToken_request_def fetch_def resume_def
          refreshToken_response_def)
    then show ?thesis by (simp add: x)
  qed
  have none:
    "executeRequest P request w = (Inl NoRefreshTokenError, ?w1)"
    if "getStoredTokenInfo P w1 = None \<or>
        (\<exists>ti'. getStoredTokenInfo P w1 = Some ti' \<and>
               (refresh_token ti' = None \<or> refresh_token ti' = Some []))"
  proof -
    have "refreshToken P None ?w1 = (Inl NoRefreshTokenError, ?w1)"
      using g that
      by (auto simp: refreshToken_def refreshToken_request_def resume_def)
    then show ?thesis by (simp add: x)
  qed
  show ?thesis using granted rejected refused none by blast
qed

theorem C2_retry_after_refresh_witness:
  "isAuthError (JsError (Some 401) None) \<and> \<not> isRateLimitError (JsError (Some 401) None) \<and>
   fst (executeRequest refreshing_platform (unauthorized_then (Inr ''success''))
          (new_TokenManager 0 [TOKEN_INFO_KEY \<mapsto> ''{old-token}''])) = Inr ''success'' \<and>
   calls (snd (executeRequest refreshing_platform (unauthorized_then (Inr ''success''))
          (new_TokenManager 0 [TOKEN_INFO_KEY \<mapsto> ''{old-token}''])))
     = [''old-token'', ''new-token''] \<and>
   fetched (snd (executeRequest refreshing_platform (unauthorized_then (Inr ''success''))
          (new_TokenManager 0 [TOKEN_INFO_KEY \<mapsto> ''{old-token}''])))
     = [RefreshRequest ''refresh-token''] \<and>
   executeRequest mock_platform (unauthorized_then (Inr ''success''))
       (new_TokenManager 0 [TOKEN_INFO_KEY \<mapsto> ''{old-token}''])
     = (Inl (RefreshFailedError (Error ''no mock'')),
        (waitForRateLimit (new_TokenManager 0 [TOKEN_INFO_KEY \<mapsto> ''{old-token}'']))
          \<lparr>calls := [''old-token''], fetched := [RefreshRequest ''refresh-token'']\<rparr>) \<and>
   executeRequest refusing_platform (unauthorized_then (Inr ''success''))
       (new_TokenManager 0 [TOKEN_INFO_KEY \<mapsto> ''{old-token}''])
     = (Inl (RefreshFailedError (Error ''Token refresh failed: Bad Request'')),
        (waitForRateLimit (new_TokenManager 0 [TOKEN_INFO_KEY \<mapsto> ''{old-token}'']))
          \<lparr>calls := [''old-token''], fetched := [RefreshRequest ''refresh-token'']\<rparr>) \<and>
   executeRequest mock_platform (unauthorized_then (Inr ''success'')) pat_manager
     = (Inl NoRefreshTokenError, (waitForRateLimit pat_manager)\<lparr>calls := [''pat'']\<rparr>)"
proof -
  let ?w = "new_TokenManager 0 [TOKEN_INFO_KEY \<mapsto> ''{old-token}'']"
  let ?ti = "\<lparr>access_token = ''old-token'', expires_at = Some 3600000,
              refresh_token = Some ''refresh-token''\<rparr>"
  let ?pat = "\<lparr>access_token = ''pat'', expires_at = None, refresh_token = None\<rparr>"
  let ?data = "\<lparr>tr_access_token = ''new-token'', tr_token_type = ''bearer'',
                tr_scope = ''repo'', tr_refresh_token = Some ''new-refresh-token'',
                tr_expires_in = Some 3600\<rparr>"
  let ?req = "unauthorized_then (Inr ''success'')"
  have s: "getStoredTokenInfo P (waitForRateLimit ?w) = Some ?ti"
    if "JSON_parse P = map_of mock_table" for P
    by (simp add: getStoredTokenInfo_def waitForRateLimit_frame new_TokenManager_def that
        mock_table_def TOKEN_INFO_KEY_def)
  have n: "now (waitForRateLimit ?w) = 1000"
    by (simp add: waitForRateLimit_def new_TokenManager_def sleep_def DEFAULT_BACKOFF_def)
  have h1: "getToken P (waitForRateLimit ?w) = (Inr ''old-token'', waitForRateLimit ?w)"
    if "JSON_parse P = map_of mock_table" for P
    by (simp add: getToken_def getToken_request_def s [OF that] shouldRefreshToken_def n
        resume_def MIN_TOKEN_LIFETIME_def)
  have j: "JSON_parse refreshing_platform = map_of mock_table"
    "JSON_parse mock_platform = map_of mock_table"
    "JSON_parse refusing_platform = map_of mock_table"
    by (simp_all add: refreshing_platform_def refusing_platform_def mock_platform_def)
  have h2: "?req (length (calls ?w)) ''old-token'' = Inl (JsError (Some 401) None)"
    by (simp add: unauthorized_then_def new_TokenManager_def)
  have h3: "isAuthError (JsError (Some 401) None)" by (simp add: isAuthError_def)
  have h4: "\<not> isRateLimitError (JsError (Some 401) None)" by (simp add: isRateLimitError_def)
  have f: "fetched (waitForRateLimit ?w) = []" "calls ?w = []"
    by (simp_all add: waitForRateLimit_frame new_TokenManager_def)
  have e1: "access_token_endpoint refreshing_platform [RefreshRequest ''refresh-token''] = Ok ?data"
    by (simp add: refreshing_platform_def)
  have e2: "access_token_endpoint mock_platform [RefreshRequest ''refresh-token'']
              = Rejected ''no mock''"
    by (simp add: mock_platform_def)
  have e3: "access_token_endpoint refusing_platform [RefreshRequest ''refresh-token'']
              = NotOk ''Bad Request'' \<lparr>error = Some ''bad_refresh_token'', error_description = None\<rparr>"
    by (simp add: refusing_platform_def)
  have 1: "fst (executeRequest refreshing_platform ?req ?w) = Inr ''success'' \<and>
           calls (snd (executeRequest refreshing_platform ?req ?w)) = [''old-token'', ''new-token''] \<and>
           fetched (snd (executeRequest refreshing_platform ?req ?w)) = [RefreshRequest ''refresh-token'']"
    using C2_retry_after_refresh
      [where request = ?req and w = ?w and ti = ?ti and rt = "''refresh-token''" and data = ?data,
        OF h1 [OF j(1)] h2 h3 h4] s [OF j(1)] f e1
    by (simp add: unauthorized_then_def)
  have 2: "executeRequest mock_platform ?req ?w
     = (Inl (RefreshFailedError (Error ''no mock'')),
        (waitForRateLimit ?w)\<lparr>calls := [''old-token''], fetched := [RefreshRequest ''refresh-token'']\<rparr>)"
    using C2_retry_after_refresh
      [where request = ?req and w = ?w and ti = ?ti and rt = "''refresh-token''"
        and m = "''no mock''", OF h1 [OF j(2)] h2 h3 h4] s [OF j(2)] f e2
    by simp
  have 3: "executeRequest refusing_platform ?req ?w
     = (Inl (RefreshFailedError (Error ''Token refresh failed: Bad Request'')),
        (waitForRateLimit ?w)\<lparr>calls := [''old-token''], fetched := [RefreshRequest ''refresh-token'']\<rparr>)"
    using C2_retry_after_refresh
      [where request = ?req and w = ?w and ti = ?ti and rt = "''refresh-token''"
        and statusText = "''Bad Request''"
        and b = "\<lparr>error = Some ''bad_refresh_token'', error_description = None\<rparr>",
        OF h1 [OF j(3)] h2 h3 h4] s [OF j(3)] f e3
    by simp
  have ps: "getStoredTokenInfo mock_platform (waitForRateLimit pat_manager) = Some ?pat"
    by (simp add: getStoredTokenInfo_def waitForRateLimit_frame pat_manager_def
        new_TokenManager_def mock_platform_def mock_table_def TOKEN_INFO_KEY_def)
  have p1: "getToken mock_platform (waitForRateLimit pat_manager)
              = (Inr ''pat'', waitForRateLimit pat_manager)"
    using getToken_no_expiry [OF ps] by simp
  have p2: "?req (length (calls pat_manager)) ''pat'' = Inl (JsError (Some 401) None)"
    by (simp add: unauthorized_then_def pat_manager_def new_TokenManager_def)
  have pc: "calls pat_manager = []" by (simp add: pat_manager_def new_TokenManager_def)
  have 4: "executeRequest mock_platform ?req pat_manager
     = (Inl NoRefreshTokenError, (waitForRateLimit pat_manager)\<lparr>calls := [''pat'']\<rparr>)"
    using C2_retry_after_refresh
      [where request = ?req and w = pat_manager, OF p1 p2 h3 h4] ps pc
    by simp
  show ?thesis using h3 h4 1 2 3 4 by simp
qed

text \<open>
  Claim C2 as stated fails. A second failure is not turned into an authentication
  error: here the second invocation fails with status 500 and that very error comes
  out. And when the stored record has no refresh token, the first 401 ends the call
  with the no-refresh-token error after a single invocation.
\<close>

theorem C2_counterexample:
  "fst (executeRequest refreshing_platform
          (unauthorized_then (Inl (JsError (Some 500) (Some ''Internal Server Error''))))
          (new_TokenManager 0 [TOKEN_INFO_KEY \<mapsto> ''{old-token}'']))
     = Inl (JsError (Some 500) (Some ''Internal Server Error'')) \<and>
   calls (snd (executeRequest refreshing_platform
          (unauthorized_then (Inl (JsError (Some 500) (Some ''Internal Server Error''))))
          (new_TokenManager 0 [TOKEN_INFO_KEY \<mapsto> ''{old-token}''])))
     = [''old-token'', ''new-token''] \<and>
   fst (executeRequest refreshing_platform (unauthorized_then (Inr ''success'')) pat_manager)
     = Inl NoRefreshTokenError \<and>
   calls (snd (executeRequest refreshing_platform (unauthorized_then (Inr ''success'')) pat_manager))
     = [''pat'']"
  by (simp add: executeRequest_def attempt_def handle_error_def invoke_def getToken_def
      getToken_request_def getStoredTokenInfo_def shouldRefreshToken_def resume_def
      refreshToken_def refreshToken_request_def refreshToken_response_def storeToken_def
      fetch_def waitForRateLimit_def sleep_def new_TokenManager_def pat_manager_def
      refreshing_platform_def mock_platform_def mock_table_def unauthorized_then_def
      isAuthError_def isRateLimitError_def DEFAULT_BACKOFF_def MIN_TOKEN_LIFETIME_def
      TOKEN_INFO_KEY_def)

lemma getToken_request_in_window:
  assumes "getStoredTokenInfo P w = Some ti"
    and "expires_at ti = Some e" and "e \<noteq> 0" and "now w + MIN_TOKEN_LIFETIME > e"
    and "refresh_token ti = Some rt" and "rt \<noteq> []"
  shows "getToken_request P w =
           (Awaiting (access_token_endpoint P (fetched w @ [RefreshRequest rt])),
            w\<lparr>fetched := fetched w @ [RefreshRequest rt]\<rparr>)"
  using assms
  by (simp add: getToken_request_def shouldRefreshToken_def refreshToken_request_def fetch_def)

text \<open>
  Claim C1, as the code has it. The manager has no single-flight mechanism. When the
  stored record is within the refresh window and has a refresh token, each of two
  \<open>getToken\<close> calls issued together sends its own refresh request, two in all, and
  when both requests are granted each caller receives the access token of its own
  answer.
\<close>

theorem C1_two_refreshes:
  assumes "getStoredTokenInfo P w = Some ti"
    and "expires_at ti = Some e" and "e \<noteq> 0" and "now w + MIN_TOKEN_LIFETIME > e"
    and "refresh_token ti = Some rt" and "rt \<noteq> []"
  shows "fetched (snd (concurrent_getToken P first_answer_first w))
           = fetched w @ [RefreshRequest rt, RefreshRequest rt] \<and>
         (access_token_endpoint P (fetched w @ [RefreshRequest rt]) = Ok d1 \<and>
          access_token_endpoint P (fetched w @ [RefreshRequest rt, RefreshRequest rt]) = Ok d2
            \<longrightarrow> fst (concurrent_getToken P first_answer_first w)
                  = (Inr (tr_access_token d1), Inr (tr_access_token d2)))"
proof -
  let ?a1 = "access_token_endpoint P (fetched w @ [RefreshRequest rt])"
  let ?a2 = "access_token_endpoint P (fetched w @ [RefreshRequest rt, RefreshRequest rt])"
  let ?w1 = "w\<lparr>fetched := fetched w @ [RefreshRequest rt]\<rparr>"
  let ?w2 = "w\<lparr>fetched := fetched w @ [RefreshRequest rt, RefreshRequest rt]\<rparr>"
  have r1: "getToken_request P w = (Awaiting ?a1, ?w1)"
    using getToken_request_in_window [OF assms(1-6)] by simp
  have "getStoredTokenInfo P ?w1 = Some ti"
    using assms(1) by (simp add: getStoredTokenInfo_def)
  then have r2: "getToken_request P ?w1 = (Awaiting ?a2, ?w2)"
    using getToken_request_in_window [of P ?w1 ti e rt] assms(2-6) by simp
  have f: "fetched (snd (concurrent_getToken P first_answer_first w))
             = fetched w @ [RefreshRequest rt, RefreshRequest rt]"
    by (simp add: concurrent_getToken_def r1 r2 resume_frame split_beta)
  have "fst (concurrent_getToken P first_answer_first w)
          = (Inr (tr_access_token d1), Inr (tr_access_token d2))"
    if "?a1 = Ok d1" and "?a2 = Ok d2"
    by (simp add: concurrent_getToken_def r1 r2 that resume_def refreshToken_response_def
        split_beta)
  then show ?thesis using f by blast
qed

theorem C1_two_refreshes_witness:
  "getStoredTokenInfo refreshing_platform expiring_manager
     = Some \<lparr>access_token = ''old-token'', expires_at = Some 3600000,
             refresh_token = Some ''refresh-token''\<rparr> \<and>
   now expiring_manager + MIN_TOKEN_LIFETIME > 3600000 \<and>
   fetched (snd (concurrent_getToken refreshing_platform False expiring_manager))
     = [RefreshRequest ''refresh-token'', RefreshRequest ''refresh-token''] \<and>
   fst (concurrent_getToken refreshing_platform False expiring_manager)
     = (Inr ''new-token'', Inr ''new-token'')"
proof -
  let ?ti = "\<lparr>access_token = ''old-token'', expires_at = Some 3600000,
              refresh_token = Some ''refresh-token''\<rparr>"
  let ?d = "\<lparr>tr_access_token = ''new-token'', tr_token_type = ''bearer'',
             tr_scope = ''repo'', tr_refresh_token = Some ''new-refresh-token'',
             tr_expires_in = Some 3600\<rparr>"
  have h1: "getStoredTokenInfo refreshing_platform expiring_manager = Some ?ti"
    by (simp add: getStoredTokenInfo_def expiring_manager_def new_TokenManager_def
        refreshing_platform_def mock_platform_def mock_table_def TOKEN_INFO_KEY_def)
  have h2: "expires_at ?ti = Some 3600000" by simp
  have h3: "(3600000::int) \<noteq> 0" by simp
  have h4: "now expiring_manager + MIN_TOKEN_LIFETIME > 3600000"
    by (simp add: expiring_manager_def new_TokenManager_def MIN_TOKEN_LIFETIME_def)
  have h5: "refresh_token ?ti = Some ''refresh-token''" by simp
  have h6: "''refresh-token'' \<noteq> []" by simp
  have h7: "access_token_endpoint refreshing_platform
              (fetched expiring_manager @ [RefreshRequest ''refresh-token'']) = Ok ?d"
    by (simp add: refreshing_platform_def)
  have h8: "access_token_endpoint refreshing_platform
              (fetched expiring_manager
                 @ [RefreshRequest ''refresh-token'', RefreshRequest ''refresh-token'']) = Ok ?d"
    by (simp add: refreshing_platform_def)
  have f: "fetched expiring_manager = []"
    by (simp add: expiring_manager_def new_TokenManager_def)
  show ?thesis
    using C1_two_refreshes [OF h1 h2 h3 h4 h5 h6, of False ?d ?d] h1 h4 h7 h8 f by simp
qed

text \<open>
  Claim C1 as stated fails: two calls issued together send two refresh requests, and
  when the provider refuses the second use of the refresh token the callers do not
  receive the same token: the first gets the new token, the second an error.
\<close>

theorem C1_counterexample:
  "getStoredTokenInfo rotating_platform expiring_manager
     = Some \<lparr>access_token = ''old-token'', expires_at = Some 3600000,
             refresh_token = Some ''refresh-token''\<rparr> \<and>
   now expiring_manager + MIN_TOKEN_LIFETIME > 3600000 \<and>
   fetched (snd (concurrent_getToken rotating_platform True expiring_manager))
     = [RefreshRequest ''refresh-token'', RefreshRequest ''refresh-token''] \<and>
   fst (concurrent_getToken rotating_platform True expiring_manager)
     = (Inr ''new-token'',
        Inl (RefreshFailedError (Error ''Token refresh failed: Bad Request'')))"
  by (simp add: concurrent_getToken_def getToken_request_def getStoredTokenInfo_def
      shouldRefreshToken_def resume_def refreshToken_request_def refreshToken_response_def
      storeToken_def fetch_def new_TokenManager_def expiring_manager_def
      rotating_platform_def mock_platform_def mock_table_def MIN_TOKEN_LIFETIME_def
      TOKEN_INFO_KEY_def)

section \<open>Properties of the device flow of github-device-flow.ts\<close>

lemma poll_try_pending:
  assumes "always_pending P"
  shows "poll_try P dc w =
           (Pending, sleep (pollInterval w) (w\<lparr>fetched := fetched w @ [TokenPollRequest (clientId w) dc]\<rparr>))"
proof -
  obtain st b where "access_token_endpoint P (fetched w @ [TokenPollRequest (clientId w) dc]) = NotOk st b"
    and "error b = Some ''authorization_pending''"
    using assms unfolding always_pending_def by blast
  then show ?thesis by (simp add: poll_try_def fetch_def)
qed

lemma poll_loop_pending:
  assumes "always_pending P"
  shows "k = nat (maxAttempts w - attempts) \<Longrightarrow> k < fuel \<Longrightarrow>
         poll_loop fuel P dc attempts w =
           Some (Inl MaxAttemptsError,
                 w\<lparr>now := now w + int k * max 0 (pollInterval w),
                   sleeps := sleeps w @ replicate k (pollInterval w),
                   fetched := fetched w @ replicate k (TokenPollRequest (clientId w) dc)\<rparr>)"
proof (induction k arbitrary: fuel attempts w)
  case 0
  then obtain f where f: "fuel = Suc f" by (cases fuel) auto
  from 0 have "\<not> attempts < maxAttempts w" by simp
  then show ?case by (simp add: f)
next
  case (Suc k)
  then obtain f where f: "fuel = Suc f" and kf: "k < f" by (cases fuel) auto
  from Suc.prems have lt: "attempts < maxAttempts w" by linarith
  let ?w = "sleep (pollInterval w) (w\<lparr>fetched := fetched w @ [TokenPollRequest (clientId w) dc]\<rparr>)"
  have k: "k = nat (maxAttempts ?w - (attempts + 1))"
    using Suc.prems by (simp add: sleep_def)
  have "poll_loop fuel P dc attempts w = poll_loop f P dc (attempts + 1) ?w"
    using lt by (simp add: f poll_try_pending [OF assms])
  also have "\<dots> = Some (Inl MaxAttemptsError,
                 ?w\<lparr>now := now ?w + int k * max 0 (pollInterval ?w),
                   sleeps := sleeps ?w @ replicate k (pollInterval ?w),
                   fetched := fetched ?w @ replicate k (TokenPollRequest (clientId ?w) dc)\<rparr>)"
    by (rule Suc.IH [OF k kf])
  finally show ?case
    by (simp add: sleep_def algebra_simps replicate_append_same)
qed

lemma initiated_flow_eq:
  "initiated_flow =
     \<lparr>now = 0, sleeps = [], fetched = [DeviceCodeRequest ''client-id'' ''repo user''],
      clientId = ''client-id'', scopes = [''repo'', ''user''], credentials = Map.empty,
      deviceCode = Some ''d1'', pollInterval = 5000, maxAttempts = 12,
      expiresAt = Some 900000\<rparr>"
  by (simp add: initiated_flow_def initiate_def fetch_def new_GitHubDeviceFlow_def
      device_platform_def)

lemma always_pending_answers: "always_pending (device_platform (answers [pending]))"
  by (simp add: always_pending_def device_platform_def answers_def pending_def)

lemma poll_pending_after_initiate:
  assumes "always_pending P"
    and "device_code_endpoint P
           (fetched w0 @ [DeviceCodeRequest (clientId w0) (join (scopes w0) '' '')]) = Ok data"
    and "expires_in data = 900" and "interval data = 5" and "device_code data \<noteq> []"
    and "maxAttempts w0 = 12"
    and "w = (snd (initiate P w0))\<lparr>now := t\<rparr>"
    and "t \<le> now w0 + 900000"
    and "12 < fuel"
  shows "poll fuel P w =
           Some (Inl MaxAttemptsError,
                 w\<lparr>now := t + 60000,
                   sleeps := sleeps w0 @ replicate 12 5000,
                   fetched := fetched w0
                     @ DeviceCodeRequest (clientId w0) (join (scopes w0) '' '')
                     # replicate 12 (TokenPollRequest (clientId w0) (device_code data))\<rparr>)"
proof -
  have w: "w = w0\<lparr>now := t,
                 fetched := fetched w0 @ [DeviceCodeRequest (clientId w0) (join (scopes w0) '' '')],
                 deviceCode := Some (device_code data), pollInterval := 5000,
                 expiresAt := Some (now w0 + 900000)\<rparr>"
    using assms(2,3,4,7) by (simp add: initiate_def fetch_def)
  have k: "(12::nat) = nat (maxAttempts w - 0)"
    using assms(6) by (simp add: w)
  have "poll fuel P w = poll_loop fuel P (device_code data) 0 w"
    using assms(5,8) by (simp add: poll_def w)
  also note poll_loop_pending [OF assms(1) k assms(9), of "device_code data"]
  finally show ?thesis by (simp add: w)
qed

text \<open>
  Claim C5, as the code has it. After \<open>initiate\<close> with \<open>expires_in = 900\<close> and
  \<open>interval = 5\<close>, let \<open>poll\<close> start at time \<open>t\<close>, not after the deadline, and let every
  answer of the token endpoint be \<open>authorization_pending\<close>. Then \<open>poll\<close> ends with the
  error of exhausted attempts after exactly 12 polling requests and 12 waits of 5000 ms,
  at time \<open>t + 60000\<close>. The deadline is tested once, on entry; the waiting ends by the
  deadline exactly when \<open>poll\<close> was started at least 60 seconds before it.
\<close>

theorem C5_timeout_after_max_attempts:
  assumes "always_pending P"
    and "device_code_endpoint P
           (fetched w0 @ [DeviceCodeRequest (clientId w0) (join (scopes w0) '' '')]) = Ok data"
    and "expires_in data = 900" and "interval data = 5" and "device_code data \<noteq> []"
    and "maxAttempts w0 = 12"
    and "w = (snd (initiate P w0))\<lparr>now := t\<rparr>"
    and "t \<le> now w0 + 900000"
    and "12 < fuel"
  shows "poll fuel P w =
           Some (Inl MaxAttemptsError,
                 w\<lparr>now := t + 60000,
                   sleeps := sleeps w0 @ replicate 12 5000,
                   fetched := fetched w0
                     @ DeviceCodeRequest (clientId w0) (join (scopes w0) '' '')
                     # replicate 12 (TokenPollRequest (clientId w0) (device_code data))\<rparr>) \<and>
         (t + 60000 \<le> now w0 + 900000 \<longleftrightarrow> t \<le> now w0 + 840000)"
proof -
  have "t + 60000 \<le> now w0 + 900000 \<longleftrightarrow> t \<le> now w0 + 840000" by linarith
  then show ?thesis using poll_pending_after_initiate [OF assms] by blast
qed

theorem C5_timeout_after_max_attempts_witness:
  "poll 13 (device_platform (answers [pending])) initiated_flow =
     Some (Inl MaxAttemptsError,
           initiated_flow
             \<lparr>now := 60000,
              sleeps := replicate 12 5000,
              fetched := DeviceCodeRequest ''client-id'' ''repo user''
                         # replicate 12 (TokenPollRequest ''client-id'' ''d1'')\<rparr>)"
proof -
  let ?P = "device_platform (answers [pending])"
  let ?w0 = "new_GitHubDeviceFlow 0 ''client-id'' [''repo'', ''user''] Map.empty"
  let ?data = "\<lparr>device_code = ''d1'', user_code = ''U1'',
                verification_uri = ''https://x/device'', expires_in = 900, interval = 5\<rparr>"
  have h2: "device_code_endpoint ?P
              (fetched ?w0 @ [DeviceCodeRequest (clientId ?w0) (join (scopes ?w0) '' '')]) = Ok ?data"
    by (simp add: device_platform_def)
  have h3: "expires_in ?data = 900" and h4: "interval ?data = 5"
    and h5: "device_code ?data \<noteq> []" by simp_all
  have h6: "maxAttempts ?w0 = 12" by (simp add: new_GitHubDeviceFlow_def)
  have h7: "initiated_flow = (snd (initiate ?P ?w0))\<lparr>now := 0\<rparr>"
    by (simp add: initiated_flow_def initiate_def fetch_def new_GitHubDeviceFlow_def
        device_platform_def)
  have h8: "(0::int) \<le> now ?w0 + 900000" by (simp add: new_GitHubDeviceFlow_def)
  have h9: "(12::nat) < 13" by simp
  show ?thesis
    using C5_timeout_after_max_attempts
      [OF always_pending_answers h2 h3 h4 h5 h6 h7 h8 h9]
    by (simp add: new_GitHubDeviceFlow_def)
qed

text \<open>
  Claim C5 as stated fails in its last part: \<open>poll\<close> started 880 seconds after
  \<open>initiate\<close>, before the deadline of 900 seconds, keeps waiting until second 940.
\<close>

theorem C5_counterexample:
  "expiresAt initiated_flow = Some 900000 \<and>
   fst (the (poll 13 (device_platform (answers [pending])) (initiated_flow\<lparr>now := 880000\<rparr>)))
     = Inl MaxAttemptsError \<and>
   now (snd (the (poll 13 (device_platform (answers [pending])) (initiated_flow\<lparr>now := 880000\<rparr>))))
     = 940000"
proof -
  let ?P = "device_platform (answers [pending])"
  let ?w0 = "new_GitHubDeviceFlow 0 ''client-id'' [''repo'', ''user''] Map.empty"
  let ?data = "\<lparr>device_code = ''d1'', user_code = ''U1'',
                verification_uri = ''https://x/device'', expires_in = 900, interval = 5\<rparr>"
  have h2: "device_code_endpoint ?P
              (fetched ?w0 @ [DeviceCodeRequest (clientId ?w0) (join (scopes ?w0) '' '')]) = Ok ?data"
    by (simp add: device_platform_def)
  have h3: "expires_in ?data = 900" and h4: "interval ?data = 5"
    and h5: "device_code ?data \<noteq> []" by simp_all
  have h6: "maxAttempts ?w0 = 12" by (simp add: new_GitHubDeviceFlow_def)
  have h7: "initiated_flow\<lparr>now := 880000\<rparr> = (snd (initiate ?P ?w0))\<lparr>now := 880000\<rparr>"
    by (simp add: initiated_flow_def)
  have h8: "(880000::int) \<le> now ?w0 + 900000" by (simp add: new_GitHubDeviceFlow_def)
  have h9: "(12::nat) < 13" by simp
  show ?thesis
    using poll_pending_after_initiate [OF always_pending_answers h2 h3 h4 h5 h6 h7 h8 h9]
    by (simp add: initiated_flow_eq)
qed

text \<open>
  The same run from a state on: it is enough that the answers to the polling requests
  still to come are \<open>authorization_pending\<close>. With one other error as first answer,
  and \<open>authorization_pending\<close> ever after, \<open>poll\<close> sends 13 requests and waits 12 times.
\<close>

lemma poll_loop_pending_run:
  "\<forall>n. \<exists>statusText b.
      access_token_endpoint P
        (fetched w @ replicate (Suc n) (TokenPollRequest (clientId w) dc)) = NotOk statusText b \<and>
      error b = Some ''authorization_pending'' \<Longrightarrow>
   k = nat (maxAttempts w - attempts) \<Longrightarrow> k < fuel \<Longrightarrow>
   poll_loop fuel P dc attempts w =
     Some (Inl MaxAttemptsError,
           w\<lparr>now := now w + int k * max 0 (pollInterval w),
             sleeps := sleeps w @ replicate k (pollInterval w),
             fetched := fetched w @ replicate k (TokenPollRequest (clientId w) dc)\<rparr>)"
proof (induction k arbitrary: fuel attempts w)
  case 0
  then obtain f where f: "fuel = Suc f" by (cases fuel) auto
  from 0 have "\<not> attempts < maxAttempts w" by simp
  then show ?case by (simp add: f)
next
  case (Suc k)
  then obtain f where f: "fuel = Suc f" and kf: "k < f" by (cases fuel) auto
  from Suc.prems have lt: "attempts < maxAttempts w" by linarith
  let ?r = "TokenPollRequest (clientId w) dc"
  let ?w = "sleep (pollInterval w) (w\<lparr>fetched := fetched w @ [?r]\<rparr>)"
  obtain st b where "access_token_endpoint P (fetched w @ [?r]) = NotOk st b"
    and "error b = Some ''authorization_pending''"
    using Suc.prems(1) [rule_format, of 0] by auto
  then have t: "poll_try P dc w = (Pending, ?w)"
    by (simp add: poll_try_def fetch_def)
  have p: "\<forall>n. \<exists>statusText b.
      access_token_endpoint P
        (fetched ?w @ replicate (Suc n) (TokenPollRequest (clientId ?w) dc)) = NotOk statusText b \<and>
      error b = Some ''authorization_pending''"
  proof
    fix n
    show "\<exists>statusText b.
      access_token_endpoint P
        (fetched ?w @ replicate (Suc n) (TokenPollRequest (clientId ?w) dc)) = NotOk statusText b \<and>
      error b = Some ''authorization_pending''"
      using Suc.prems(1) [rule_format, of "Suc n"] by (simp add: sleep_def)
  qed
  have k: "k = nat (maxAttempts ?w - (attempts + 1))"
    using Suc.prems by (simp add: sleep_def)
  have "poll_loop fuel P dc attempts w = poll_loop f P dc (attempts + 1) ?w"
    using lt by (simp add: f t)
  also have "\<dots> = Some (Inl MaxAttemptsError,
                 ?w\<lparr>now := now ?w + int k * max 0 (pollInterval ?w),
                   sleeps := sleeps ?w @ replicate k (pollInterval ?w),
                   fetched := fetched ?w @ replicate k (TokenPollRequest (clientId ?w) dc)\<rparr>)"
    by (rule Suc.IH [OF p k kf])
  finally show ?case
    by (simp add: sleep_def algebra_simps replicate_append_same)
qed

lemma answers_then_pending:
  "answers [x, pending]
     ([DeviceCodeRequest c s, TokenPollRequest c' d] @ replicate (Suc n) (TokenPollRequest c' d))
     = pending"
  by (cases n) (simp_all add: answers_def)

lemma poll_after_one_failure:
  assumes "x = NotOk statusText b" and "error b \<noteq> Some ''authorization_pending''"
  shows "poll 14 (device_platform (answers [x, pending])) initiated_flow =
           Some (Inl MaxAttemptsError,
                 initiated_flow
                   \<lparr>now := 60000, sleeps := replicate 12 5000,
                    fetched := DeviceCodeRequest ''client-id'' ''repo user''
                               # replicate 13 (TokenPollRequest ''client-id'' ''d1'')\<rparr>)"
proof -
  let ?P = "device_platform (answers [x, pending])"
  let ?r = "TokenPollRequest ''client-id'' ''d1''"
  let ?w1 = "initiated_flow\<lparr>fetched := [DeviceCodeRequest ''client-id'' ''repo user'', ?r]\<rparr>"
  obtain m where t: "poll_try ?P ''d1'' initiated_flow = (Failed m, ?w1)"
    using assms
    by (simp add: poll_try_def fetch_def initiated_flow_eq device_platform_def answers_def)
  have m12: "maxAttempts initiated_flow = 12" "maxAttempts ?w1 = 12"
    by (simp_all add: initiated_flow_eq)
  have p: "\<forall>n. \<exists>statusText b.
      access_token_endpoint ?P
        (fetched ?w1 @ replicate (Suc n) (TokenPollRequest (clientId ?w1) ''d1'')) = NotOk statusText b \<and>
      error b = Some ''authorization_pending''"
    using answers_then_pending [of x]
    by (simp add: initiated_flow_eq device_platform_def pending_def)
  have k: "(12::nat) = nat (maxAttempts ?w1 - 0)" by (simp add: initiated_flow_eq)
  have "poll 14 ?P initiated_flow = poll_loop (Suc 13) ?P ''d1'' 0 initiated_flow"
    by (simp add: poll_def initiated_flow_eq)
  also have "\<dots> = poll_loop 13 ?P ''d1'' 0 ?w1"
    by (subst poll_loop.simps(2)) (simp add: t m12)
  also have "\<dots> = Some (Inl MaxAttemptsError,
           ?w1\<lparr>now := now ?w1 + int 12 * max 0 (pollInterval ?w1),
               sleeps := sleeps ?w1 @ replicate 12 (pollInterval ?w1),
               fetched := fetched ?w1 @ replicate 12 (TokenPollRequest (clientId ?w1) ''d1'')\<rparr>)"
    by (rule poll_loop_pending_run [OF p k]) simp
  finally show ?thesis
    using replicate_Suc [of 12 ?r] by (simp add: initiated_flow_eq)
qed

lemma poll_try_denied:
  "poll_try (device_platform (answers [denied])) dc w =
     (Failed ''The user has denied your application access.'',
      w\<lparr>fetched := fetched w @ [TokenPollRequest (clientId w) dc]\<rparr>)"
  by (simp add: poll_try_def fetch_def device_platform_def answers_def denied_def)

lemma poll_loop_denied:
  "attempts < maxAttempts w - 1 \<Longrightarrow>
   poll_loop fuel (device_platform (answers [denied])) dc attempts w = None"
proof (induction fuel arbitrary: w)
  case 0
  show ?case by simp
next
  case (Suc fuel)
  let ?w = "w\<lparr>fetched := fetched w @ [TokenPollRequest (clientId w) dc]\<rparr>"
  have "attempts < maxAttempts ?w - 1" using Suc.prems by simp
  then have "poll_loop fuel (device_platform (answers [denied])) dc attempts ?w = None"
    by (rule Suc.IH)
  then show ?case using Suc.prems by (simp add: poll_try_denied)
qed

text \<open>
  Claim C3 against the code. The token endpoint answers the first polling request with
  the terminal error \<open>access_denied\<close>. \<open>poll\<close> throws inside its \<open>try\<close> block, but its own
  \<open>catch\<close> swallows the error on every attempt but the last, and the loop polls again at
  once, without counting the attempt: with \<open>authorization_pending\<close> as every later
  answer \<open>poll\<close> sends twelve more requests and ends with the error of exhausted
  attempts, and with \<open>access_denied\<close> as every answer it polls for ever.
\<close>

theorem C3_terminal_error_is_retried:
  "poll 14 (device_platform (answers [denied, pending])) initiated_flow =
     Some (Inl MaxAttemptsError,
           initiated_flow
             \<lparr>now := 60000, sleeps := replicate 12 5000,
              fetched := DeviceCodeRequest ''client-id'' ''repo user''
                         # replicate 13 (TokenPollRequest ''client-id'' ''d1'')\<rparr>) \<and>
   (\<forall>fuel. poll fuel (device_platform (answers [denied])) initiated_flow = None)"
proof -
  have "error \<lparr>error = Some ''access_denied'',
                error_description = Some ''The user has denied your application access.''\<rparr>
          \<noteq> Some ''authorization_pending''"
    by simp
  then have "poll 14 (device_platform (answers [denied, pending])) initiated_flow =
     Some (Inl MaxAttemptsError,
           initiated_flow
             \<lparr>now := 60000, sleeps := replicate 12 5000,
              fetched := DeviceCodeRequest ''client-id'' ''repo user''
                         # replicate 13 (TokenPollRequest ''client-id'' ''d1'')\<rparr>)"
    by (rule poll_after_one_failure [OF denied_def])
  moreover have "poll fuel (device_platform (answers [denied])) initiated_flow = None" for fuel
    by (simp add: poll_def initiated_flow_eq poll_loop_denied)
  ultimately show ?thesis by blast
qed

text \<open>
  Claim C8 against the code. \<open>revoke\<close> begins by calling \<open>getSecret\<close> on its vault,
  which the vault does not have: the call throws inside the \<open>try\<close> block, and every
  \<open>revoke\<close>, with or without a token in the vault, raises the revoke error, sends no
  request and leaves everything as it was.
\<close>

theorem C8_revoke_always_raises:
  "revoke P w = (Inl (RevokeError ''this.vault.getSecret is not a function''), w) \<and>
   revoke mock_platform (new_GitHubDeviceFlow 0 ''client-id'' [''repo''] Map.empty) =
     (Inl (PRAutomatorError
             ''Failed to revoke GitHub token: this.vault.getSecret is not a function'' ''auth''
             (Some (JsError None (Some ''this.vault.getSecret is not a function'')))),
      new_GitHubDeviceFlow 0 ''client-id'' [''repo''] Map.empty)"
  by (simp add: revoke_def getSecret_def RevokeError_def Error_def)

section \<open>Properties of polling in both device flows\<close>













end
